theory Spec2Isabelle
  imports Complex_Main "HOL-Library.AList"
begin

section \<open>Values\<close>

text \<open>
  The controller handles request bodies, entities and response payloads as untyped
  JavaScript values (\<^verbatim>\<open>any\<close>). They are embedded as a datatype of JSON-like values. An
  object is an association list in insertion order with distinct keys. Numbers are the
  integers (the DTOs declare \<^verbatim>\<open>@IsInt()\<close>); the three non-finite results that a division
  by zero produces in JavaScript are separate constructors.
\<close>

datatype jvalue =
    JNull
  | JBool bool
  | JNum int
  | JNaN
  | JInfinity
  | JNegInfinity
  | JStr string
  | JArr "jvalue list"
  | JObj "(string \<times> jvalue) list"

type_synonym jobject = "(string \<times> jvalue) list"

text \<open>\<^verbatim>\<open>Array.prototype.join\<close> on an array of strings.\<close>

fun join :: "string \<Rightarrow> string list \<Rightarrow> string" where
  "join sep [] = []"
| "join sep [x] = x"
| "join sep (x # y # ys) = x @ sep @ join sep (y # ys)"

text \<open>\<^verbatim>\<open>String.prototype.split\<close> with a one-character separator.\<close>

fun split :: "char \<Rightarrow> string \<Rightarrow> string list" where
  "split c [] = [[]]"
| "split c (x # xs) =
     (if x = c then [] # split c xs
      else (case split c xs of [] \<Rightarrow> [[x]] | w # ws \<Rightarrow> (x # w) # ws))"

text \<open>\<^verbatim>\<open>Math.ceil(n / d)\<close> on integers \<open>n\<close> and \<open>d\<close>.\<close>

definition Math_ceil_div :: "int \<Rightarrow> int \<Rightarrow> jvalue" where
  "Math_ceil_div n d =
     (if d = 0 then (if n = 0 then JNaN else if 0 < n then JInfinity else JNegInfinity)
      else JNum \<lceil>real_of_int n / real_of_int d\<rceil>)"

section \<open>Exceptions and the response envelope\<close>

text \<open>
  \<^verbatim>\<open>BadRequestException\<close> is thrown with a message (invalid relations) or with the list of
  violations that \<^verbatim>\<open>validate\<close> returned. \<^verbatim>\<open>TypeError\<close> is what JavaScript raises when
  \<^verbatim>\<open>data.map\<close> is called on a value that is not an array.
\<close>

datatype exception =
    BadRequestException string
  | BadRequestViolations "string list"
  | NotFoundException string
  | TypeError

fun getStatus :: "exception \<Rightarrow> int" where
  "getStatus (BadRequestException m) = 400"
| "getStatus (BadRequestViolations es) = 400"
| "getStatus (NotFoundException m) = 404"
| "getStatus TypeError = 500"

text \<open>
  \<^verbatim>\<open>ApiResponseDto\<close> (fields prefixed with \<open>res_\<close>). \<^verbatim>\<open>path\<close> is optional in
  \<^verbatim>\<open>successResponse\<close>.
\<close>

record api_response =
  res_success :: bool
  res_statusCode :: int
  res_message :: string
  res_timestamp :: string
  res_path :: "string option"
  res_data :: jvalue

text \<open>
  The constructor of \<^verbatim>\<open>ApiResponseDto\<close> as \<^verbatim>\<open>successResponse\<close> calls it:
  \<^verbatim>\<open>Object.assign(this, {success: true, timestamp: ..., ...partial})\<close> with a partial that
  carries data, message, statusCode, path and timestamp. The clock reading \<open>now\<close> stands
  for \<^verbatim>\<open>new Date().toISOString()\<close>.
\<close>

definition ApiResponseDto ::
  "string \<Rightarrow> jvalue \<Rightarrow> string \<Rightarrow> int \<Rightarrow> string option \<Rightarrow> api_response" where
  "ApiResponseDto now d msg code p =
     \<lparr>res_success = True, res_statusCode = code, res_message = msg,
      res_timestamp = now, res_path = p, res_data = d\<rparr>"

section \<open>Projection onto the response shape\<close>

text \<open>
  A response DTO class is the list of its \<^verbatim>\<open>@Expose()\<close>-decorated properties, each with
  the groups of its decorator (the empty list when the decorator has no groups).
\<close>

type_synonym response_shape = "(string \<times> string list) list"

text \<open>
  Modelled from the spec: the projection collaborator, class-transformer's
  \<^verbatim>\<open>plainToInstance(cls, value, {excludeExtraneousValues: true, groups})\<close>, which is a
  third-party library and not part of the sources. "Given a target shape, a source object,
  and an active group set, returns an object containing only fields the shape declares as
  exposed for those groups": a property without groups is exposed for every group set, a
  property with groups is exposed when one of its groups is active; an array is projected
  element by element, a value that is neither array nor object is returned as it is. The
  value of an exposed property is copied; a property that the source lacks is left out.
\<close>

definition checkGroups :: "string list option \<Rightarrow> string list \<Rightarrow> bool" where
  "checkGroups groups fgroups =
     (fgroups = [] \<or>
      (case groups of None \<Rightarrow> False | Some gs \<Rightarrow> list_ex (\<lambda>g. g \<in> set fgroups) gs))"

definition exposedKeys :: "response_shape \<Rightarrow> string list option \<Rightarrow> string list" where
  "exposedKeys shape groups = map fst (filter (\<lambda>(k, fgroups). checkGroups groups fgroups) shape)"

fun plainToInstance :: "response_shape \<Rightarrow> string list option \<Rightarrow> jvalue \<Rightarrow> jvalue" where
  "plainToInstance shape groups (JArr xs) = JArr (map (plainToInstance shape groups) xs)"
| "plainToInstance shape groups (JObj kvs) =
     JObj (List.map_filter (\<lambda>k. map_option (Pair k) (map_of kvs k)) (exposedKeys shape groups))"
| "plainToInstance shape groups v = v"

section \<open>successResponse\<close>

text \<open>
  \<^verbatim>\<open>successResponse(data, message, statusCode, path?, ResponseDto?, isArray, groups?)\<close>.
  The test \<^verbatim>\<open>data?.data && Array.isArray(data.data)\<close> holds exactly when \<open>data\<close> is an
  object whose \<^verbatim>\<open>data\<close> property is an array (every array is truthy); the spread
  \<^verbatim>\<open>{...data, data: xs}\<close> overwrites that property in place.
\<close>

definition successResponse ::
  "string \<Rightarrow> jvalue \<Rightarrow> string \<Rightarrow> int \<Rightarrow> string option \<Rightarrow> response_shape option \<Rightarrow> bool \<Rightarrow>
   string list option \<Rightarrow> exception + api_response" where
  "successResponse now d msg code p ResponseDto isArray groups =
     (case ResponseDto of
        None \<Rightarrow> Inr (ApiResponseDto now d msg code p)
      | Some dto \<Rightarrow>
          if isArray then
            (case d of
               JArr items \<Rightarrow>
                 Inr (ApiResponseDto now (JArr (map (plainToInstance dto groups) items)) msg code p)
             | _ \<Rightarrow> Inl TypeError)
          else
            (case d of
               JObj kvs \<Rightarrow>
                 (case map_of kvs ''data'' of
                    Some (JArr items) \<Rightarrow>
                      Inr (ApiResponseDto now
                             (JObj (AList.update ''data''
                                      (JArr (map (plainToInstance dto groups) items)) kvs))
                             msg code p)
                  | _ \<Rightarrow> Inr (ApiResponseDto now (plainToInstance dto groups d) msg code p))
             | _ \<Rightarrow> Inr (ApiResponseDto now (plainToInstance dto groups d) msg code p)))"

text \<open>
  The test of the second branch by itself: the payload is taken for a paginated result
  when it is an object whose \<^verbatim>\<open>data\<close> property is an array.
\<close>

definition isPaginated :: "jvalue \<Rightarrow> bool" where
  "isPaginated d =
     (case d of
        JObj kvs \<Rightarrow> (case map_of kvs ''data'' of Some (JArr items) \<Rightarrow> True | _ \<Rightarrow> False)
      | _ \<Rightarrow> False)"

text \<open>
  What a projected payload is to satisfy: an object carries only keys of the given list;
  an array does when each of its elements does; any other value has no keys.
\<close>

fun onlyKeys :: "string list \<Rightarrow> jvalue \<Rightarrow> bool" where
  "onlyKeys ks (JObj kvs) = list_all (\<lambda>(k, v). k \<in> set ks) kvs"
| "onlyKeys ks (JArr xs) = list_all (onlyKeys ks) xs"
| "onlyKeys ks v = True"

section \<open>Find options, sorting and relation inclusion\<close>

text \<open>
  TypeORM's \<^verbatim>\<open>FindManyOptions\<close>, restricted to the properties this code sets (fields
  prefixed with \<open>fo_\<close>); \<open>None\<close> is an absent property. \<^verbatim>\<open>where\<close> and \<^verbatim>\<open>order\<close> are
  objects in insertion order (the order of the keys of \<^verbatim>\<open>order\<close> is the sort priority).
  \<^verbatim>\<open>relations\<close> is an object whose keys are flags, read by key only: it is a map.
\<close>

datatype sort_direction = ASC | DESC

record find_options =
  fo_where :: "jobject option"
  fo_order :: "(string \<times> sort_direction) list option"
  fo_relations :: "(string \<rightharpoonup> bool) option"
  fo_skip :: "int option"
  fo_take :: "int option"

text \<open>
  \<^verbatim>\<open>parseSort\<close>: \<^verbatim>\<open>!sort\<close> holds for \<^verbatim>\<open>undefined\<close> and for the empty string. The
  destructuring \<^verbatim>\<open>[field, direction] = sort.split(':')\<close> takes the first two parts;
  \<^verbatim>\<open>direction\<close> is \<^verbatim>\<open>undefined\<close>, hence different from \<^verbatim>\<open>'desc'\<close>, when there is
  no second part. \<open>split\<close> returns at least one part, so the first case below does not
  occur.
\<close>

definition parseSort :: "string option \<Rightarrow> (string \<times> sort_direction) list" where
  "parseSort sortParam =
     (case sortParam of
        None \<Rightarrow> []
      | Some s \<Rightarrow>
          if s = [] then []
          else
            (case split (CHR '':'') s of
               [] \<Rightarrow> []
             | [field] \<Rightarrow> [(field, ASC)]
             | field # direction # _ \<Rightarrow>
                 [(field, if direction = ''desc'' then DESC else ASC)]))"

text \<open>
  \<^verbatim>\<open>applyIncludes\<close>: \<^verbatim>\<open>!include?.length\<close> holds for \<^verbatim>\<open>undefined\<close> and for the empty
  array. The reducer \<^verbatim>\<open>(acc, cur) => ({...acc, [cur]: true})\<close> starts from \<^verbatim>\<open>{}\<close>.
\<close>

definition applyIncludes :: "find_options \<Rightarrow> string list option \<Rightarrow> find_options" where
  "applyIncludes opts include =
     (case include of
        None \<Rightarrow> opts
      | Some xs \<Rightarrow>
          if xs = [] then opts
          else
            (let relations = foldl (\<lambda>acc cur. acc(cur \<mapsto> True)) Map.empty xs
             in opts\<lparr>fo_relations := Some relations\<rparr>))"

section \<open>Configuration\<close>

text \<open>
  A create or update DTO class is taken as a parameter: what \<^verbatim>\<open>plainToInstance\<close> makes of a
  raw body for that class, and the violations that \<^verbatim>\<open>validate\<close> reports for the instance
  (class-validator, a third-party library).
\<close>

record dto_class =
  dto_instance :: "jvalue \<Rightarrow> jvalue"
  dto_violations :: "jvalue \<Rightarrow> string list"

text \<open>
  \<^verbatim>\<open>CrudOptions\<close>, without the guard chains, the create interceptor and the file field,
  which only select framework decorators.
\<close>

record crud_options =
  CreateDto :: "dto_class option"
  UpdateDto :: "dto_class option"
  ResponseDto :: "response_shape option"
  allowedRelationsFindOne :: "string list option"
  allowedRelationsFindAll :: "string list option"
  serializationGroups :: "string list option"
  softDelete :: "bool option"

text \<open>\<^verbatim>\<open>PaginationDto\<close>; the index signature \<^verbatim>\<open>[key: string]: any\<close> is \<open>pg_filters\<close>.\<close>

record pagination_dto =
  pg_page :: "int option"
  pg_limit :: "int option"
  pg_sort :: "string option"
  pg_include :: "string list option"
  pg_filters :: jobject

section \<open>The data-access layer\<close>

text \<open>
  Modelled from the spec: the data-access collaborator (a TypeORM \<^verbatim>\<open>Repository\<close>, a
  third-party library and not part of the sources), as an in-memory table that answers
  every call. "find-one(filter+relations) \<rightarrow> entity|absent; find-many(filter+relations+order)
  \<rightarrow> sequence; count(filter) \<rightarrow> integer; update(criteria, partial) \<rightarrow> success marker;
  soft-delete(id) / hard-delete(id) \<rightarrow> success marker". A row matches a filter when it
  carries every key of the filter with the same value. Soft delete is a "timestamp-based
  tombstone" in the \<^verbatim>\<open>deletedAt\<close> column, and a find without include-deleted skips rows
  that carry one. Rows are returned in table order; the effect of \<^verbatim>\<open>order\<close> and
  \<^verbatim>\<open>relations\<close> on the rows is the database's and is not modelled. \<^verbatim>\<open>skip\<close> and
  \<^verbatim>\<open>take\<close> reach the database as \<^verbatim>\<open>OFFSET\<close> and \<^verbatim>\<open>LIMIT\<close> as they are: a negative
  offset counts as 0, and a negative limit is no limit, so that every row from the offset
  on is returned. Every call is recorded in \<open>db_calls\<close>, so that the calls an operation
  performs can be counted.
\<close>

datatype db_call =
    FindOne find_options
  | FindAndCount find_options
  | Update jobject jvalue
  | SoftDelete int
  | Delete int

record database =
  db_name :: string
  db_rows :: "jobject list"
  db_calls :: "db_call list"

definition called :: "db_call \<Rightarrow> database \<Rightarrow> database" where
  "called c db = db\<lparr>db_calls := db_calls db @ [c]\<rparr>"

definition alive :: "jobject \<Rightarrow> bool" where
  "alive e = (case map_of e ''deletedAt'' of None \<Rightarrow> True | Some v \<Rightarrow> v = JNull)"

definition matches :: "jobject option \<Rightarrow> jobject \<Rightarrow> bool" where
  "matches cond e =
     (case cond of None \<Rightarrow> True | Some c \<Rightarrow> list_all (\<lambda>(k, v). map_of e k = Some v) c)"

definition repository_findOne :: "find_options \<Rightarrow> database \<Rightarrow> jobject option \<times> database" where
  "repository_findOne options db =
     (find (\<lambda>e. alive e \<and> matches (fo_where options) e) (db_rows db),
      called (FindOne options) db)"

definition repository_findAndCount ::
  "find_options \<Rightarrow> database \<Rightarrow> (jobject list \<times> int) \<times> database" where
  "repository_findAndCount options db =
     (let matched = filter (\<lambda>e. alive e \<and> matches (fo_where options) e) (db_rows db);
          skipped = (case fo_skip options of None \<Rightarrow> matched | Some n \<Rightarrow> drop (nat n) matched);
          page = (case fo_take options of
                    None \<Rightarrow> skipped
                  | Some n \<Rightarrow> if n < 0 then skipped else take (nat n) skipped)
      in ((page, int (length matched)), called (FindAndCount options) db))"

definition properties :: "jvalue \<Rightarrow> jobject" where
  "properties v = (case v of JObj kvs \<Rightarrow> kvs | _ \<Rightarrow> [])"

definition repository_update :: "jobject \<Rightarrow> jvalue \<Rightarrow> database \<Rightarrow> database" where
  "repository_update criteria partialEntity db =
     called (Update criteria partialEntity)
       (db\<lparr>db_rows :=
             map (\<lambda>e. if matches (Some criteria) e
                       then foldl (\<lambda>acc (k, v). AList.update k v acc) e (properties partialEntity)
                       else e)
                 (db_rows db)\<rparr>)"

definition repository_softDelete :: "string \<Rightarrow> int \<Rightarrow> database \<Rightarrow> database" where
  "repository_softDelete now ident db =
     called (SoftDelete ident)
       (db\<lparr>db_rows :=
             map (\<lambda>e. if map_of e ''id'' = Some (JNum ident)
                       then AList.update ''deletedAt'' (JStr now) e
                       else e)
                 (db_rows db)\<rparr>)"

definition repository_delete :: "int \<Rightarrow> database \<Rightarrow> database" where
  "repository_delete ident db =
     called (Delete ident)
       (db\<lparr>db_rows := filter (\<lambda>e. map_of e ''id'' \<noteq> Some (JNum ident)) (db_rows db)\<rparr>)"

section \<open>BaseService\<close>

text \<open>
  The methods of \<^verbatim>\<open>BaseService\<close> that the controller calls, on the controller's own
  repository (no transaction manager) and without uploaded files. Each takes the database
  and returns it with the result.
\<close>

definition getEntityName :: "database \<Rightarrow> string" where
  "getEntityName db = db_name db"

definition service_findOne ::
  "find_options \<Rightarrow> database \<Rightarrow> (exception + jobject) \<times> database" where
  "service_findOne options db =
     (case repository_findOne options db of
        (None, db') \<Rightarrow> (Inl (NotFoundException (getEntityName db @ '' not found'')), db')
      | (Some result, db') \<Rightarrow> (Inr result, db'))"

definition service_update :: "jobject \<Rightarrow> jvalue \<Rightarrow> database \<Rightarrow> jobject option \<times> database" where
  "service_update criteria partialEntity db =
     (let db1 = repository_update criteria partialEntity db;
          (updated, db2) =
             repository_findOne
               \<lparr>fo_where = Some criteria, fo_order = None, fo_relations = None,
                fo_skip = None, fo_take = None\<rparr> db1
      in (updated, db2))"

definition service_delete :: "string \<Rightarrow> int \<Rightarrow> bool \<Rightarrow> database \<Rightarrow> database" where
  "service_delete now ident soft db =
     (if soft then repository_softDelete now ident db else repository_delete ident db)"

text \<open>
  \<^verbatim>\<open>paginate(options)\<close>: the properties \<^verbatim>\<open>page\<close> and \<^verbatim>\<open>limit\<close> of its argument are
  separate arguments here, the other properties are the find options. \<^verbatim>\<open>where\<close>
  defaults to \<^verbatim>\<open>{}\<close>.
\<close>

definition paginate :: "find_options \<Rightarrow> int \<Rightarrow> int \<Rightarrow> database \<Rightarrow> jvalue \<times> database" where
  "paginate options page limit db =
     (let whereCond = (case fo_where options of None \<Rightarrow> [] | Some w \<Rightarrow> w);
          ((rows, n), db') =
             repository_findAndCount
               (options\<lparr>fo_where := Some whereCond,
                        fo_skip := Some ((page - 1) * limit),
                        fo_take := Some limit\<rparr>) db
      in (JObj [(''data'', JArr (map JObj rows)),
                (''meta'', JObj [(''total'', JNum n),
                                 (''page'', JNum page),
                                 (''limit'', JNum limit),
                                 (''totalPages'', Math_ceil_div n limit)])],
          db'))"

section \<open>BaseControllerHost\<close>

text \<open>
  \<^verbatim>\<open>allowed?.includes(r)\<close> is \<^verbatim>\<open>undefined\<close>, hence falsy, when no allow-list is configured;
  the template literal prints \<^verbatim>\<open>allowed?.join(', ')\<close> as \<^verbatim>\<open>undefined\<close> then.
\<close>

definition array_includes :: "string list option \<Rightarrow> string \<Rightarrow> bool" where
  "array_includes allowed r = (case allowed of None \<Rightarrow> False | Some xs \<Rightarrow> r \<in> set xs)"

definition joinAllowed :: "string list option \<Rightarrow> string" where
  "joinAllowed allowed = (case allowed of None \<Rightarrow> ''undefined'' | Some xs \<Rightarrow> join '', '' xs)"

text \<open>
  The block that both \<^verbatim>\<open>findAll\<close> and \<^verbatim>\<open>findOne\<close> open with: when the include list
  has elements, those outside the allow-list are collected, and when there are any the
  request is refused. \<open>invalidRelations\<close> is the collected list (empty when the include
  list is absent or empty), \<open>invalidMessage\<close> the text of the exception.
\<close>

definition invalidRelations :: "string list option \<Rightarrow> string list option \<Rightarrow> string list" where
  "invalidRelations include allowed =
     (case include of None \<Rightarrow> [] | Some xs \<Rightarrow> filter (\<lambda>r. \<not> array_includes allowed r) xs)"

definition invalidMessage :: "string list \<Rightarrow> string list option \<Rightarrow> string" where
  "invalidMessage invalid allowed =
     ''Invalid relations: '' @ join '', '' invalid @ ''. Allowed: '' @ joinAllowed allowed"

text \<open>
  The handlers take the entity name and the options of \<^verbatim>\<open>BaseController\<close>, the clock
  reading, the request's parameters and URL, and the database.
\<close>

definition controller_findAll ::
  "string \<Rightarrow> crud_options \<Rightarrow> string \<Rightarrow> pagination_dto \<Rightarrow> string \<Rightarrow> database \<Rightarrow>
   (exception + api_response) \<times> database" where
  "controller_findAll entityName opts now paginationDto url db =
     (let page = (case pg_page paginationDto of None \<Rightarrow> 1 | Some p \<Rightarrow> p);
          limit = (case pg_limit paginationDto of None \<Rightarrow> 10 | Some l \<Rightarrow> l);
          sortParam = pg_sort paginationDto;
          include = pg_include paginationDto;
          filters = pg_filters paginationDto;
          invalid = invalidRelations include (allowedRelationsFindAll opts)
      in if invalid \<noteq> [] then
           (Inl (BadRequestException (invalidMessage invalid (allowedRelationsFindAll opts))), db)
         else
           (let dbOptions =
                  applyIncludes
                    \<lparr>fo_where = Some filters, fo_order = Some (parseSort sortParam),
                     fo_relations = None, fo_skip = None, fo_take = None\<rparr>
                    include;
                (result, db') = paginate dbOptions page (min limit 100) db
            in (successResponse now result (entityName @ '' retrieved successfully'') 200
                  (Some url) (ResponseDto opts) False (serializationGroups opts),
                db')))"

definition controller_findOne ::
  "string \<Rightarrow> crud_options \<Rightarrow> string \<Rightarrow> int \<Rightarrow> string list option \<Rightarrow> string \<Rightarrow> database \<Rightarrow>
   (exception + api_response) \<times> database" where
  "controller_findOne entityName opts now ident include url db =
     (let invalid = invalidRelations include (allowedRelationsFindOne opts)
      in if invalid \<noteq> [] then
           (Inl (BadRequestException (invalidMessage invalid (allowedRelationsFindOne opts))), db)
         else
           (let options =
                  applyIncludes
                    \<lparr>fo_where = Some [(''id'', JNum ident)], fo_order = None,
                     fo_relations = None, fo_skip = None, fo_take = None\<rparr>
                    include
            in case service_findOne options db of
                 (Inl e, db') \<Rightarrow> (Inl e, db')
               | (Inr d, db') \<Rightarrow>
                   (successResponse now (JObj d) (entityName @ '' retrieved successfully'') 200
                      (Some url) (ResponseDto opts) False (serializationGroups opts),
                    db')))"

definition controller_update ::
  "string \<Rightarrow> crud_options \<Rightarrow> string \<Rightarrow> int \<Rightarrow> jvalue \<Rightarrow> string \<Rightarrow> database \<Rightarrow>
   (exception + api_response) \<times> database" where
  "controller_update entityName opts now ident updateDto url db =
     (let entity = (case UpdateDto opts of None \<Rightarrow> updateDto | Some c \<Rightarrow> dto_instance c updateDto);
          errors = (case UpdateDto opts of None \<Rightarrow> [] | Some c \<Rightarrow> dto_violations c entity)
      in if errors \<noteq> [] then (Inl (BadRequestViolations errors), db)
         else
           (let (d, db') = service_update [(''id'', JNum ident)] entity db
            in (successResponse now (case d of None \<Rightarrow> JNull | Some e \<Rightarrow> JObj e)
                  (entityName @ '' updated successfully'') 200 (Some url) None False None,
                db')))"

definition controller_delete ::
  "string \<Rightarrow> crud_options \<Rightarrow> string \<Rightarrow> int \<Rightarrow> string \<Rightarrow> database \<Rightarrow>
   (exception + api_response) \<times> database" where
  "controller_delete entityName opts now ident url db =
     (let soft = (case softDelete opts of None \<Rightarrow> True | Some b \<Rightarrow> b);
          db' = service_delete now ident soft db
      in (successResponse now (JObj [(''deleted'', JBool True), (''id'', JNum ident)])
            (entityName @ '' deleted successfully'') 200 (Some url) None False None,
          db'))"

section \<open>Example data\<close>

text \<open>
  The entity, the response DTO and the update DTO of the end-to-end test
  (\<^verbatim>\<open>TestEntity\<close>, \<^verbatim>\<open>TestResponseDto\<close>, \<^verbatim>\<open>UpdateTestDto\<close>), and a table of two items as
  its \<^verbatim>\<open>GET /tests\<close> cases set it up. \<open>profile_options\<close> adds the allow-list
  \<^verbatim>\<open>["profile"]\<close> for both read operations.
\<close>

definition TestResponseDto :: response_shape where
  "TestResponseDto = [(''id'', []), (''name'', []), (''description'', [''detail''])]"

definition UpdateTestDto :: dto_class where
  "UpdateTestDto =
     \<lparr>dto_instance = (\<lambda>v. v),
      dto_violations =
        (\<lambda>v. case map_of (properties v) ''name'' of
                None \<Rightarrow> []
              | Some (JStr s) \<Rightarrow> []
              | Some _ \<Rightarrow> [''name must be a string''])\<rparr>"

definition test_options :: crud_options where
  "test_options =
     \<lparr>CreateDto = None, UpdateDto = Some UpdateTestDto, ResponseDto = Some TestResponseDto,
      allowedRelationsFindOne = None, allowedRelationsFindAll = None,
      serializationGroups = Some [''detail''], softDelete = Some True\<rparr>"

definition profile_options :: crud_options where
  "profile_options =
     test_options\<lparr>allowedRelationsFindOne := Some [''profile''],
                  allowedRelationsFindAll := Some [''profile'']\<rparr>"

definition item1 :: jobject where
  "item1 = [(''id'', JNum 1), (''name'', JStr ''Item 1''), (''description'', JStr ''Desc 1''),
            (''deletedAt'', JNull)]"

definition item2 :: jobject where
  "item2 = [(''id'', JNum 2), (''name'', JStr ''Item 2''), (''description'', JStr ''Desc 2''),
            (''deletedAt'', JNull)]"

definition test_table :: database where
  "test_table = \<lparr>db_name = ''TestEntity'', db_rows = [item1, item2], db_calls = []\<rparr>"

text \<open>A table of 101 items, one more than the cap on the page size.\<close>

definition big_table :: database where
  "big_table =
     \<lparr>db_name = ''TestEntity'',
      db_rows = map (\<lambda>i. [(''id'', JNum i), (''name'', JStr ''Item'')]) [1..101],
      db_calls = []\<rparr>"

text \<open>
  The rows that a list response carries: the elements of the \<^verbatim>\<open>data\<close> array of its
  payload (none for an exception or for a payload without such an array).
\<close>

definition responseRows :: "exception + api_response \<Rightarrow> jvalue list" where
  "responseRows r =
     (case r of
        Inl e \<Rightarrow> []
      | Inr env \<Rightarrow>
          (case map_of (properties (res_data env)) ''data'' of
             Some (JArr items) \<Rightarrow> items
           | _ \<Rightarrow> []))"

definition no_options :: find_options where
  "no_options =
     \<lparr>fo_where = None, fo_order = None, fo_relations = None, fo_skip = None, fo_take = None\<rparr>"

section \<open>Pagination\<close>

lemma ceiling_div_bounds:
  fixes n d :: int
  assumes "1 \<le> d"
  shows "d * (\<lceil>real_of_int n / real_of_int d\<rceil> - 1) < n \<and>
         n \<le> d * \<lceil>real_of_int n / real_of_int d\<rceil>"
proof -
  let ?c = "\<lceil>real_of_int n / real_of_int d\<rceil>"
  have d: "0 < real_of_int d" using assms by simp
  have up: "real_of_int n / real_of_int d \<le> real_of_int ?c" by (rule le_of_int_ceiling)
  have lo: "real_of_int ?c - 1 < real_of_int n / real_of_int d" by linarith
  have "real_of_int n \<le> real_of_int ?c * real_of_int d"
    by (rule pos_divide_le_eq[THEN iffD1, OF d up])
  then have a: "n \<le> d * ?c"
    by (metis mult.commute of_int_le_iff of_int_mult)
  have "(real_of_int ?c - 1) * real_of_int d < real_of_int n"
    by (rule pos_less_divide_eq[THEN iffD1, OF d lo])
  then have "real_of_int ((?c - 1) * d) < real_of_int n" by simp
  then have b: "d * (?c - 1) < n"
    by (metis mult.commute of_int_less_iff)
  from a b show ?thesis by blast
qed

lemma ceiling_div_zero_iff:
  fixes n d :: int
  assumes "1 \<le> d" and "0 \<le> n"
  shows "\<lceil>real_of_int n / real_of_int d\<rceil> = 0 \<longleftrightarrow> n = 0"
proof
  assume "\<lceil>real_of_int n / real_of_int d\<rceil> = 0"
  with ceiling_div_bounds[OF assms(1), of n] have "n \<le> 0" by simp
  with assms(2) show "n = 0" by simp
next
  assume "n = 0"
  then show "\<lceil>real_of_int n / real_of_int d\<rceil> = 0" by simp
qed

lemma paginate_eq:
  "paginate options page limit db =
     (let fo = options\<lparr>fo_where := Some (case fo_where options of None \<Rightarrow> [] | Some w \<Rightarrow> w),
                         fo_skip := Some ((page - 1) * limit), fo_take := Some limit\<rparr>;
          matched = filter (\<lambda>e. alive e \<and> matches (fo_where fo) e) (db_rows db)
      in (JObj [(''data'',
                 JArr (map JObj
                         (if limit < 0 then drop (nat ((page - 1) * limit)) matched
                          else take (nat limit) (drop (nat ((page - 1) * limit)) matched)))),
                (''meta'', JObj [(''total'', JNum (int (length matched))),
                                 (''page'', JNum page), (''limit'', JNum limit),
                                 (''totalPages'', Math_ceil_div (int (length matched)) limit)])],
          called (FindAndCount fo) db))"
  by (simp add: paginate_def repository_findAndCount_def Let_def)

text \<open>
  C4. For every page \<open>\<ge> 1\<close> and limit \<open>\<ge> 1\<close>, \<open>paginate\<close> performs one find-and-count
  call with offset \<open>(page - 1) * limit\<close> and page size \<open>limit\<close>, returns the rows of the
  matching sequence from that offset, at most \<open>limit\<close> of them, and a \<open>meta\<close> object that
  carries the count of matching rows as \<open>total\<close>, the given \<open>page\<close> and \<open>limit\<close>, and
  \<open>totalPages\<close>, the ceiling of \<open>total / limit\<close>: the least number of pages of that size
  that hold \<open>total\<close> rows. \<open>totalPages\<close> is 0 if and only if \<open>total\<close> is 0.
\<close>

theorem paginate_offset_and_meta:
  assumes "1 \<le> page" and "1 \<le> limit"
  shows "\<exists>fo matched tp.
           fo = options\<lparr>fo_where := Some (case fo_where options of None \<Rightarrow> [] | Some w \<Rightarrow> w),
                           fo_skip := Some ((page - 1) * limit), fo_take := Some limit\<rparr> \<and>
           matched = filter (\<lambda>e. alive e \<and> matches (fo_where fo) e) (db_rows db) \<and>
           tp = \<lceil>real_of_int (int (length matched)) / real_of_int limit\<rceil> \<and>
           paginate options page limit db =
             (JObj [(''data'',
                     JArr (map JObj (take (nat limit) (drop (nat ((page - 1) * limit)) matched)))),
                    (''meta'', JObj [(''total'', JNum (int (length matched))),
                                     (''page'', JNum page), (''limit'', JNum limit),
                                     (''totalPages'', JNum tp)])],
              called (FindAndCount fo) db) \<and>
           (tp = 0 \<longleftrightarrow> int (length matched) = 0) \<and>
           limit * (tp - 1) < int (length matched) \<and> int (length matched) \<le> limit * tp"
proof -
  let ?fo = "options\<lparr>fo_where := Some (case fo_where options of None \<Rightarrow> [] | Some w \<Rightarrow> w),
                       fo_skip := Some ((page - 1) * limit), fo_take := Some limit\<rparr>"
  let ?matched = "filter (\<lambda>e. alive e \<and> matches (fo_where ?fo) e) (db_rows db)"
  let ?n = "int (length ?matched)"
  let ?tp = "\<lceil>real_of_int ?n / real_of_int limit\<rceil>"
  have nz: "limit \<noteq> 0" "\<not> limit < 0" using assms(2) by simp_all
  have pg: "paginate options page limit db =
             (JObj [(''data'',
                     JArr (map JObj (take (nat limit) (drop (nat ((page - 1) * limit)) ?matched)))),
                    (''meta'', JObj [(''total'', JNum ?n),
                                     (''page'', JNum page), (''limit'', JNum limit),
                                     (''totalPages'', JNum ?tp)])],
              called (FindAndCount ?fo) db)"
    using nz by (simp add: paginate_eq Let_def Math_ceil_div_def)
  have z: "?tp = 0 \<longleftrightarrow> ?n = 0"
    by (rule ceiling_div_zero_iff[OF assms(2)]) simp
  have b: "limit * (?tp - 1) < ?n \<and> ?n \<le> limit * ?tp"
    by (rule ceiling_div_bounds[OF assms(2)])
  from pg z b show ?thesis by blast
qed

theorem paginate_offset_and_meta_witness:
  "(1::int) \<le> 1 \<and>
   paginate no_options 1 1 test_table =
     (JObj [(''data'', JArr [JObj item1]),
            (''meta'', JObj [(''total'', JNum 2), (''page'', JNum 1), (''limit'', JNum 1),
                             (''totalPages'', JNum 2)])],
      called (FindAndCount (no_options\<lparr>fo_where := Some [], fo_skip := Some 0,
                                         fo_take := Some 1\<rparr>)) test_table)"
  using paginate_offset_and_meta[of 1 1 no_options test_table]
  by (simp add: no_options_def test_table_def item1_def item2_def alive_def matches_def)

section \<open>Sorting\<close>

text \<open>
  C5. The order directive sorts descending only when the direction is exactly the
  lower-case \<^verbatim>\<open>desc\<close>: the comparison is \<^verbatim>\<open>direction === 'desc'\<close>. The directions
  \<^verbatim>\<open>DESC\<close> and \<^verbatim>\<open>Desc\<close>, which match \<^verbatim>\<open>desc\<close> case-insensitively, sort ascending, as do
  an absent direction and any other one; an absent or empty sort parameter gives the
  empty directive.
\<close>

theorem parseSort_direction_case_sensitive:
  "parseSort (Some ''name:desc'') = [(''name'', DESC)] \<and>
   parseSort (Some ''name:DESC'') = [(''name'', ASC)] \<and>
   parseSort (Some ''name:Desc'') = [(''name'', ASC)] \<and>
   parseSort (Some ''name:asc'') = [(''name'', ASC)] \<and>
   parseSort (Some ''name'') = [(''name'', ASC)] \<and>
   parseSort (Some []) = [] \<and>
   parseSort None = []"
  by (simp add: parseSort_def)

section \<open>Relation inclusion\<close>

lemma foldl_relations:
  "foldl (\<lambda>acc cur. acc(cur \<mapsto> True)) m xs = (\<lambda>k. if k \<in> set xs then Some True else m k)"
  by (induction xs arbitrary: m) (auto simp: fun_eq_iff)

text \<open>
  C9. \<open>applyIncludes\<close> returns the options unchanged for an absent and for an empty
  include list. Two include lists with the same set of relation names give equal
  options, whatever the order and the repetitions; and the relations directive of a
  non-empty include list marks exactly the listed relations, each with \<^verbatim>\<open>true\<close>.
\<close>

theorem applyIncludes_set_only:
  "applyIncludes opts None = opts \<and>
   applyIncludes opts (Some []) = opts \<and>
   (set xs = set ys \<longrightarrow> applyIncludes opts (Some xs) = applyIncludes opts (Some ys)) \<and>
   (xs \<noteq> [] \<longrightarrow>
      (\<exists>rel. fo_relations (applyIncludes opts (Some xs)) = Some rel \<and> dom rel = set xs \<and>
             (\<forall>r\<in>set xs. rel r = Some True)))"
  by (auto simp: applyIncludes_def foldl_relations Let_def split: if_splits)

theorem applyIncludes_set_only_witness:
  "set [''posts'', ''profile'', ''posts''] = set [''profile'', ''posts''] \<and>
   applyIncludes no_options (Some [''posts'', ''profile'', ''posts'']) =
     applyIncludes no_options (Some [''profile'', ''posts'']) \<and>
   (\<exists>rel. fo_relations (applyIncludes no_options (Some [''profile'', ''posts''])) = Some rel \<and>
          rel ''profile'' = Some True \<and> rel ''posts'' = Some True)"
  using applyIncludes_set_only[of no_options "[''posts'', ''profile'', ''posts'']"
          "[''profile'', ''posts'']"]
        applyIncludes_set_only[of no_options "[''profile'', ''posts'']" "[]"]
  by auto

section \<open>Refusal of relations outside the allow-list\<close>

lemma invalidRelations_nonempty:
  assumes "r \<in> set xs" and "\<not> array_includes allowed r"
  shows "invalidRelations (Some xs) allowed \<noteq> []"
  using assms by (auto simp: invalidRelations_def filter_empty_conv)

text \<open>
  C2. When the include list of a list request or of a detail request has a relation
  name outside the allow-list configured for that operation, the handler throws a
  \<^verbatim>\<open>BadRequestException\<close> (status 400) whose message lists every name of the include list
  that is outside the allow-list, in request order, followed by the whole allow-list. The
  database is returned as it was given: the log of data-access calls has no new entry.
\<close>

theorem invalid_include_rejected:
  assumes "r \<in> set xs" and "\<not> array_includes allowed r"
  shows "(allowedRelationsFindAll opts = allowed \<and> pg_include q = Some xs \<longrightarrow>
            controller_findAll entityName opts now q url db =
              (Inl (BadRequestException
                      (''Invalid relations: '' @
                       join '', '' (filter (\<lambda>r. \<not> array_includes allowed r) xs) @
                       ''. Allowed: '' @ joinAllowed allowed)), db)) \<and>
         (allowedRelationsFindOne opts = allowed \<longrightarrow>
            controller_findOne entityName opts now ident (Some xs) url db =
              (Inl (BadRequestException
                      (''Invalid relations: '' @
                       join '', '' (filter (\<lambda>r. \<not> array_includes allowed r) xs) @
                       ''. Allowed: '' @ joinAllowed allowed)), db)) \<and>
         getStatus (BadRequestException m) = 400"
  using invalidRelations_nonempty[OF assms]
  by (simp add: controller_findAll_def controller_findOne_def Let_def invalidMessage_def)
     (simp add: invalidRelations_def)

theorem invalid_include_rejected_witness:
  "''badRelation'' \<in> set [''profile'', ''badRelation'', ''worse''] \<and>
   \<not> array_includes (Some [''profile'']) ''badRelation'' \<and>
   controller_findAll ''Test'' profile_options ''t0''
      \<lparr>pg_page = None, pg_limit = None, pg_sort = None,
       pg_include = Some [''profile'', ''badRelation'', ''worse''], pg_filters = []\<rparr>
      ''/tests?include=profile,badRelation,worse'' test_table =
     (Inl (BadRequestException ''Invalid relations: badRelation, worse. Allowed: profile''),
      test_table) \<and>
   controller_findOne ''Test'' profile_options ''t0'' 1
      (Some [''profile'', ''badRelation'', ''worse''])
      ''/tests?include=profile,badRelation,worse'' test_table =
     (Inl (BadRequestException ''Invalid relations: badRelation, worse. Allowed: profile''),
      test_table)"
  using invalid_include_rejected[where r = "''badRelation''"
      and xs = "[''profile'', ''badRelation'', ''worse'']"
      and allowed = "Some [''profile'']" and opts = profile_options
      and q = "\<lparr>pg_page = None, pg_limit = None, pg_sort = None,
                pg_include = Some [''profile'', ''badRelation'', ''worse''], pg_filters = []\<rparr>"
      and entityName = "''Test''" and now = "''t0''"
      and url = "''/tests?include=profile,badRelation,worse''" and db = test_table
      and ident = 1 and m = "[]"]
  by (simp add: profile_options_def test_options_def array_includes_def joinAllowed_def)

section \<open>The cap on the page size\<close>

lemma successResponse_paginated:
  "successResponse now (JObj [(''data'', JArr items), (''meta'', m)]) msg code p shape False
     groups =
     Inr (ApiResponseDto now
            (JObj [(''data'',
                    (case shape of None \<Rightarrow> JArr items
                     | Some dto \<Rightarrow> JArr (map (plainToInstance dto groups) items))),
                   (''meta'', m)])
            msg code p)"
  by (simp add: successResponse_def split: option.splits)

lemma fo_where_applyIncludes: "fo_where (applyIncludes fo include) = fo_where fo"
  by (simp add: applyIncludes_def Let_def split: option.splits)

lemma controller_findAll_ok:
  assumes "invalidRelations (pg_include q) (allowedRelationsFindAll opts) = []"
  shows "controller_findAll entityName opts now q url db =
     (let page = (case pg_page q of None \<Rightarrow> 1 | Some p \<Rightarrow> p);
          limit = min (case pg_limit q of None \<Rightarrow> 10 | Some l \<Rightarrow> l) 100;
          fo = (applyIncludes
                  \<lparr>fo_where = Some (pg_filters q), fo_order = Some (parseSort (pg_sort q)),
                   fo_relations = None, fo_skip = None, fo_take = None\<rparr> (pg_include q))
               \<lparr>fo_where := Some (pg_filters q),
                fo_skip := Some ((page - 1) * limit), fo_take := Some limit\<rparr>;
          matched = filter (\<lambda>e. alive e \<and> matches (Some (pg_filters q)) e) (db_rows db);
          rows = map JObj
                   (if limit < 0 then drop (nat ((page - 1) * limit)) matched
                    else take (nat limit) (drop (nat ((page - 1) * limit)) matched))
      in (Inr (ApiResponseDto now
                 (JObj [(''data'',
                         (case ResponseDto opts of None \<Rightarrow> JArr rows
                          | Some dto \<Rightarrow>
                              JArr (map (plainToInstance dto (serializationGroups opts)) rows))),
                        (''meta'',
                         JObj [(''total'', JNum (int (length matched))),
                               (''page'', JNum page), (''limit'', JNum limit),
                               (''totalPages'', Math_ceil_div (int (length matched)) limit)])])
                 (entityName @ '' retrieved successfully'') 200 (Some url)),
          called (FindAndCount fo) db))"
  using assms
  by (cases "ResponseDto opts")
     (simp_all add: controller_findAll_def Let_def paginate_eq successResponse_paginated
        fo_where_applyIncludes)

text \<open>
  A list request with a requested limit of at least 1 that passes the check of its include
  list performs exactly one data-access call, a find-and-count whose page size
  (\<^verbatim>\<open>take\<close>) is the smaller of the requested limit and 100, and the \<^verbatim>\<open>data\<close> array of
  its response has at most 100 elements. A request that fails the check fetches nothing.
\<close>

lemma findAll_limit_in_range:
  assumes "pg_limit q = Some l" and "1 \<le> l"
  shows "(invalidRelations (pg_include q) (allowedRelationsFindAll opts) = [] \<longrightarrow>
            (\<exists>fo env items.
               snd (controller_findAll entityName opts now q url db) =
                 called (FindAndCount fo) db \<and>
               fo_take fo = Some (min l 100) \<and>
               fst (controller_findAll entityName opts now q url db) = Inr env \<and>
               map_of (properties (res_data env)) ''data'' = Some (JArr items) \<and>
               length items \<le> 100)) \<and>
         (invalidRelations (pg_include q) (allowedRelationsFindAll opts) \<noteq> [] \<longrightarrow>
            snd (controller_findAll entityName opts now q url db) = db)"
proof (intro conjI impI)
  assume ok: "invalidRelations (pg_include q) (allowedRelationsFindAll opts) = []"
  have m: "\<not> min l 100 < 0" "nat (min l 100) \<le> 100" using assms(2) by simp_all
  let ?R = "controller_findAll entityName opts now q url db"
  let ?shaped = "\<lambda>rows. case ResponseDto opts of None \<Rightarrow> rows
                   | Some dto \<Rightarrow> map (plainToInstance dto (serializationGroups opts)) rows"
  obtain fo rows n where R: "?R =
      (Inr (ApiResponseDto now
              (JObj [(''data'',
                      (case ResponseDto opts of None \<Rightarrow> JArr rows
                       | Some dto \<Rightarrow>
                           JArr (map (plainToInstance dto (serializationGroups opts)) rows))),
                     (''meta'', n)])
              (entityName @ '' retrieved successfully'') 200 (Some url)),
       called (FindAndCount fo) db)"
    and t: "fo_take fo = Some (min l 100)" and len: "length rows \<le> 100"
    using controller_findAll_ok[OF ok, of entityName now url db] m
    by (simp add: Let_def assms(1))
  show "\<exists>fo env items.
               snd ?R = called (FindAndCount fo) db \<and>
               fo_take fo = Some (min l 100) \<and>
               fst ?R = Inr env \<and>
               map_of (properties (res_data env)) ''data'' = Some (JArr items) \<and>
               length items \<le> 100"
  proof (intro exI conjI)
    show "snd ?R = called (FindAndCount fo) db" using R by simp
    show "fo_take fo = Some (min l 100)" by (rule t)
    show "fst ?R = Inr (ApiResponseDto now
              (JObj [(''data'',
                      (case ResponseDto opts of None \<Rightarrow> JArr rows
                       | Some dto \<Rightarrow>
                           JArr (map (plainToInstance dto (serializationGroups opts)) rows))),
                     (''meta'', n)])
              (entityName @ '' retrieved successfully'') 200 (Some url))"
      using R by simp
    show "map_of (properties (res_data (ApiResponseDto now
              (JObj [(''data'',
                      (case ResponseDto opts of None \<Rightarrow> JArr rows
                       | Some dto \<Rightarrow>
                           JArr (map (plainToInstance dto (serializationGroups opts)) rows))),
                     (''meta'', n)])
              (entityName @ '' retrieved successfully'') 200 (Some url)))) ''data'' =
          Some (JArr (?shaped rows))"
      by (cases "ResponseDto opts") (simp_all add: ApiResponseDto_def properties_def)
    show "length (?shaped rows) \<le> 100"
      using len by (cases "ResponseDto opts") simp_all
  qed
next
  assume "invalidRelations (pg_include q) (allowedRelationsFindAll opts) \<noteq> []"
  then show "snd (controller_findAll entityName opts now q url db) = db"
    by (simp add: controller_findAll_def Let_def)
qed

lemma findAll_limit_in_range_example:
  "\<exists>fo. db_calls (snd (controller_findAll ''Test'' test_options ''t0''
                          \<lparr>pg_page = Some 1, pg_limit = Some 1000, pg_sort = None,
                           pg_include = None, pg_filters = []\<rparr>
                          ''/tests?limit=1000'' test_table)) = [FindAndCount fo] \<and>
         fo_take fo = Some 100"
  using findAll_limit_in_range[where q = "\<lparr>pg_page = Some 1, pg_limit = Some 1000,
        pg_sort = None, pg_include = None, pg_filters = []\<rparr>"
      and l = 1000 and opts = test_options and entityName = "''Test''" and now = "''t0''"
      and url = "''/tests?limit=1000''" and db = test_table]
  by (auto simp: invalidRelations_def called_def test_table_def)

lemma big_table_matched:
  "filter (\<lambda>e. alive e \<and> matches (Some []) e) (db_rows big_table) = db_rows big_table"
  by (simp add: big_table_def alive_def matches_def filter_map o_def)

lemma big_table_length: "length (db_rows big_table) = 101"
  by (simp add: big_table_def)

text \<open>
  C3. The handler caps the limit with \<^verbatim>\<open>Math.min(limit, 100)\<close>, which bounds it from
  above only. A requested limit of \<open>-5\<close> reaches the data-access layer as the page size
  \<open>-5\<close>, and the response carries all 101 rows of a table of 101 rows: a caller can cause
  more than 100 rows to be fetched for a page.
\<close>

theorem findAll_negative_limit_not_capped:
  "snd (controller_findAll ''Test'' test_options ''t0''
          \<lparr>pg_page = None, pg_limit = Some (- 5), pg_sort = None, pg_include = None,
           pg_filters = []\<rparr>
          ''/tests?limit=-5'' big_table) =
     called (FindAndCount
               \<lparr>fo_where = Some [], fo_order = Some [], fo_relations = None,
                fo_skip = Some 0, fo_take = Some (- 5)\<rparr>) big_table \<and>
   length (responseRows
             (fst (controller_findAll ''Test'' test_options ''t0''
                     \<lparr>pg_page = None, pg_limit = Some (- 5), pg_sort = None,
                      pg_include = None, pg_filters = []\<rparr>
                     ''/tests?limit=-5'' big_table))) = 101"
proof -
  have ok: "invalidRelations
              (pg_include \<lparr>pg_page = None, pg_limit = Some (- 5), pg_sort = None,
                           pg_include = None, pg_filters = []\<rparr>)
              (allowedRelationsFindAll test_options) = []"
    by (simp add: invalidRelations_def)
  show ?thesis
    unfolding controller_findAll_ok[OF ok]
    by (simp add: Let_def big_table_matched big_table_length responseRows_def properties_def
          ApiResponseDto_def test_options_def applyIncludes_def parseSort_def)
qed

section \<open>Detail requests\<close>

lemma successResponse_not_array:
  "\<exists>env. successResponse now d msg code p shape False groups = Inr env \<and>
         res_success env \<and> res_statusCode env = code \<and> res_message env = msg \<and>
         res_timestamp env = now \<and> res_path env = p"
  by (simp add: successResponse_def ApiResponseDto_def split: option.splits jvalue.splits)

lemma successResponse_no_shape:
  "successResponse now d msg code p None isArray groups = Inr (ApiResponseDto now d msg code p)"
  by (simp add: successResponse_def)

lemma controller_findOne_cases:
  "fst (controller_findOne entityName opts now ident inc url db) =
     (if invalidRelations inc (allowedRelationsFindOne opts) \<noteq> []
      then Inl (BadRequestException
                  (invalidMessage (invalidRelations inc (allowedRelationsFindOne opts))
                     (allowedRelationsFindOne opts)))
      else case fst (repository_findOne
                       (applyIncludes
                          \<lparr>fo_where = Some [(''id'', JNum ident)], fo_order = None,
                           fo_relations = None, fo_skip = None, fo_take = None\<rparr> inc) db) of
             None \<Rightarrow> Inl (NotFoundException (db_name db @ '' not found''))
           | Some e \<Rightarrow>
               successResponse now (JObj e) (entityName @ '' retrieved successfully'') 200
                 (Some url) (ResponseDto opts) False (serializationGroups opts))"
  by (simp add: controller_findOne_def Let_def service_findOne_def repository_findOne_def
        getEntityName_def split: option.splits)

text \<open>
  C6. A detail request ends with a \<^verbatim>\<open>NotFoundException\<close> (status 404) if and only if it
  reaches the data-access lookup for its identifier, which it does when its include list
  passes the check, and the lookup returns no entity. When the lookup returns an entity, the
  request ends with the envelope that \<open>successResponse\<close> builds from that entity with the
  configured response shape and groups, with status 200.
\<close>

theorem findOne_not_found_iff_absent:
  "((\<exists>m. fst (controller_findOne entityName opts now ident inc url db) =
           Inl (NotFoundException m)) \<longleftrightarrow>
      invalidRelations inc (allowedRelationsFindOne opts) = [] \<and>
      fst (repository_findOne
             (applyIncludes
                \<lparr>fo_where = Some [(''id'', JNum ident)], fo_order = None,
                 fo_relations = None, fo_skip = None, fo_take = None\<rparr> inc) db) = None) \<and>
   (invalidRelations inc (allowedRelationsFindOne opts) = [] \<and>
    fst (repository_findOne
           (applyIncludes
              \<lparr>fo_where = Some [(''id'', JNum ident)], fo_order = None,
               fo_relations = None, fo_skip = None, fo_take = None\<rparr> inc) db) = Some e \<longrightarrow>
      (\<exists>env. fst (controller_findOne entityName opts now ident inc url db) = Inr env \<and>
             res_statusCode env = 200 \<and>
             successResponse now (JObj e) (entityName @ '' retrieved successfully'') 200
               (Some url) (ResponseDto opts) False (serializationGroups opts) = Inr env)) \<and>
   getStatus (NotFoundException m) = 404"
proof (intro conjI impI)
  let ?lookup = "fst (repository_findOne
             (applyIncludes
                \<lparr>fo_where = Some [(''id'', JNum ident)], fo_order = None,
                 fo_relations = None, fo_skip = None, fo_take = None\<rparr> inc) db)"
  let ?R = "fst (controller_findOne entityName opts now ident inc url db)"
  show "(\<exists>m. ?R = Inl (NotFoundException m)) \<longleftrightarrow>
        invalidRelations inc (allowedRelationsFindOne opts) = [] \<and> ?lookup = None"
  proof (cases "invalidRelations inc (allowedRelationsFindOne opts) = []")
    case False
    then show ?thesis by (simp add: controller_findOne_cases)
  next
    case True
    show ?thesis
    proof (cases ?lookup)
      case None
      with True show ?thesis by (simp add: controller_findOne_cases)
    next
      case (Some e)
      obtain env where "successResponse now (JObj e) (entityName @ '' retrieved successfully'')
          200 (Some url) (ResponseDto opts) False (serializationGroups opts) = Inr env"
        using successResponse_not_array by blast
      with True Some show ?thesis by (simp add: controller_findOne_cases)
    qed
  qed
  show "getStatus (NotFoundException m) = 404" by simp
next
  assume a: "invalidRelations inc (allowedRelationsFindOne opts) = [] \<and>
    fst (repository_findOne
           (applyIncludes
              \<lparr>fo_where = Some [(''id'', JNum ident)], fo_order = None,
               fo_relations = None, fo_skip = None, fo_take = None\<rparr> inc) db) = Some e"
  obtain env where e: "successResponse now (JObj e) (entityName @ '' retrieved successfully'')
          200 (Some url) (ResponseDto opts) False (serializationGroups opts) = Inr env"
      and s: "res_statusCode env = 200"
    using successResponse_not_array by blast
  show "\<exists>env. fst (controller_findOne entityName opts now ident inc url db) = Inr env \<and>
             res_statusCode env = 200 \<and>
             successResponse now (JObj e) (entityName @ '' retrieved successfully'') 200
               (Some url) (ResponseDto opts) False (serializationGroups opts) = Inr env"
    using a e s by (intro exI[of _ env]) (simp add: controller_findOne_cases)
qed

theorem findOne_not_found_iff_absent_witness:
  "fst (controller_findOne ''Test'' test_options ''t0'' 999 None ''/tests/999'' test_table) =
     Inl (NotFoundException ''TestEntity not found'') \<and>
   fst (repository_findOne
          (applyIncludes
             \<lparr>fo_where = Some [(''id'', JNum 999)], fo_order = None,
              fo_relations = None, fo_skip = None, fo_take = None\<rparr> None) test_table) = None \<and>
   fst (controller_findOne ''Test'' test_options ''t0'' 2 None ''/tests/2'' test_table) =
     Inr (ApiResponseDto ''t0''
            (JObj [(''id'', JNum 2), (''name'', JStr ''Item 2''), (''description'', JStr ''Desc 2'')])
            ''Test retrieved successfully'' 200 (Some ''/tests/2''))"
  using findOne_not_found_iff_absent[where entityName = "''Test''" and opts = test_options
          and now = "''t0''" and ident = 999 and inc = None and url = "''/tests/999''"
          and db = test_table and e = "[]" and m = "[]"]
        findOne_not_found_iff_absent[where entityName = "''Test''" and opts = test_options
          and now = "''t0''" and ident = 2 and inc = None and url = "''/tests/2''"
          and db = test_table and e = item2 and m = "[]"]
  by (simp add: controller_findOne_cases invalidRelations_def test_options_def test_table_def
        repository_findOne_def applyIncludes_def item1_def item2_def alive_def matches_def
        successResponse_def TestResponseDto_def exposedKeys_def checkGroups_def
        List.map_filter_def)

section \<open>Delete\<close>

lemma controller_delete_response:
  "fst (controller_delete entityName opts now ident url db) =
     Inr (ApiResponseDto now (JObj [(''deleted'', JBool True), (''id'', JNum ident)])
            (entityName @ '' deleted successfully'') 200 (Some url))"
  by (simp add: controller_delete_def Let_def successResponse_no_shape)

lemma lookup_after_softDelete:
  "fst (repository_findOne
          (applyIncludes
             \<lparr>fo_where = Some [(''id'', JNum ident)], fo_order = None,
              fo_relations = None, fo_skip = None, fo_take = None\<rparr> inc)
          (repository_softDelete now ident db)) = None"
  by (auto simp: repository_findOne_def repository_softDelete_def called_def
        fo_where_applyIncludes find_None_iff alive_def matches_def update_conv)

lemma lookup_after_delete:
  "fst (repository_findOne
          (applyIncludes
             \<lparr>fo_where = Some [(''id'', JNum ident)], fo_order = None,
              fo_relations = None, fo_skip = None, fo_take = None\<rparr> inc)
          (repository_delete ident db)) = None"
  by (auto simp: repository_findOne_def repository_delete_def called_def
        fo_where_applyIncludes find_None_iff alive_def matches_def)

lemma findOne_after_delete:
  "fst (controller_findOne entityName opts t ident None url'
          (snd (controller_delete entityName opts now ident url db))) =
     Inl (NotFoundException (db_name db @ '' not found''))"
proof -
  have n: "db_name (service_delete now ident soft db) = db_name db" for soft
    by (simp add: service_delete_def repository_softDelete_def repository_delete_def called_def)
  have l: "fst (repository_findOne
          (applyIncludes
             \<lparr>fo_where = Some [(''id'', JNum ident)], fo_order = None,
              fo_relations = None, fo_skip = None, fo_take = None\<rparr> None)
          (service_delete now ident soft db)) = None" for soft
    by (simp add: service_delete_def lookup_after_softDelete lookup_after_delete)
  show ?thesis
    by (simp add: controller_findOne_cases invalidRelations_def controller_delete_def Let_def n l)
qed

text \<open>
  C7. A delete request answers \<^verbatim>\<open>{deleted: true, id}\<close> with status 200 whatever the table
  holds: the answer is the same for a row that is there, for a row already deleted and for
  an identifier without a row, so the second of two deletions of the same identifier
  answers as the first. With soft delete enabled (the default), a detail request for that
  identifier without relations ends with a \<^verbatim>\<open>NotFoundException\<close> after the first deletion
  and after the second.
\<close>

theorem delete_idempotent_response:
  "fst (controller_delete entityName opts now ident url db) =
     Inr (ApiResponseDto now (JObj [(''deleted'', JBool True), (''id'', JNum ident)])
            (entityName @ '' deleted successfully'') 200 (Some url)) \<and>
   fst (controller_delete entityName opts later ident url
          (snd (controller_delete entityName opts now ident url db))) =
     Inr (ApiResponseDto later (JObj [(''deleted'', JBool True), (''id'', JNum ident)])
            (entityName @ '' deleted successfully'') 200 (Some url)) \<and>
   (softDelete opts \<noteq> Some False \<longrightarrow>
      (\<exists>m. fst (controller_findOne entityName opts t ident None url'
                  (snd (controller_delete entityName opts now ident url db))) =
             Inl (NotFoundException m)) \<and>
      (\<exists>m. fst (controller_findOne entityName opts t ident None url'
                  (snd (controller_delete entityName opts later ident url
                          (snd (controller_delete entityName opts now ident url db))))) =
             Inl (NotFoundException m)))"
  by (simp add: controller_delete_response findOne_after_delete)

theorem delete_idempotent_response_witness:
  "softDelete test_options \<noteq> Some False \<and>
   fst (controller_delete ''Test'' test_options ''t1'' 1 ''/tests/1'' test_table) =
     Inr (ApiResponseDto ''t1'' (JObj [(''deleted'', JBool True), (''id'', JNum 1)])
            ''Test deleted successfully'' 200 (Some ''/tests/1'')) \<and>
   fst (controller_delete ''Test'' test_options ''t2'' 1 ''/tests/1''
          (snd (controller_delete ''Test'' test_options ''t1'' 1 ''/tests/1'' test_table))) =
     Inr (ApiResponseDto ''t2'' (JObj [(''deleted'', JBool True), (''id'', JNum 1)])
            ''Test deleted successfully'' 200 (Some ''/tests/1'')) \<and>
   db_rows (snd (controller_delete ''Test'' test_options ''t1'' 1 ''/tests/1'' test_table)) =
     [[(''id'', JNum 1), (''name'', JStr ''Item 1''), (''description'', JStr ''Desc 1''),
       (''deletedAt'', JStr ''t1'')], item2] \<and>
   fst (controller_findOne ''Test'' test_options ''t3'' 1 None ''/tests/1''
          (snd (controller_delete ''Test'' test_options ''t1'' 1 ''/tests/1'' test_table))) =
     Inl (NotFoundException ''TestEntity not found'') \<and>
   fst (controller_findOne ''Test'' test_options ''t3'' 1 None ''/tests/1''
          (snd (controller_delete ''Test'' test_options ''t2'' 1 ''/tests/1''
             (snd (controller_delete ''Test'' test_options ''t1'' 1 ''/tests/1'' test_table))))) =
     Inl (NotFoundException ''TestEntity not found'')"
  using delete_idempotent_response[where entityName = "''Test''" and opts = test_options
          and now = "''t1''" and later = "''t2''" and ident = 1 and url = "''/tests/1''"
          and db = test_table and t = "''t3''" and url' = "''/tests/1''"]
  by (simp add: controller_findOne_cases invalidRelations_def controller_delete_def Let_def
        service_delete_def repository_softDelete_def repository_findOne_def called_def
        applyIncludes_def test_options_def test_table_def item1_def item2_def alive_def
        matches_def successResponse_def)

section \<open>Update\<close>

lemma controller_update_ok:
  assumes "(case UpdateDto opts of None \<Rightarrow> []
            | Some c \<Rightarrow> dto_violations c (dto_instance c updateDto)) = []"
  shows "controller_update entityName opts now ident updateDto url db =
     (let entity = (case UpdateDto opts of None \<Rightarrow> updateDto
                    | Some c \<Rightarrow> dto_instance c updateDto);
          refetch = repository_findOne
                      \<lparr>fo_where = Some [(''id'', JNum ident)], fo_order = None,
                       fo_relations = None, fo_skip = None, fo_take = None\<rparr>
                      (repository_update [(''id'', JNum ident)] entity db)
      in (Inr (ApiResponseDto now (case fst refetch of None \<Rightarrow> JNull | Some e \<Rightarrow> JObj e)
                 (entityName @ '' updated successfully'') 200 (Some url)),
          snd refetch))"
  using assms
  by (cases "UpdateDto opts")
     (simp_all add: controller_update_def Let_def service_update_def successResponse_no_shape
        split: prod.splits)

lemma controller_update_violations:
  assumes "(case UpdateDto opts of None \<Rightarrow> []
            | Some c \<Rightarrow> dto_violations c (dto_instance c updateDto)) \<noteq> []"
  shows "controller_update entityName opts now ident updateDto url db =
     (Inl (BadRequestViolations
             (case UpdateDto opts of None \<Rightarrow> []
              | Some c \<Rightarrow> dto_violations c (dto_instance c updateDto))), db)"
  using assms
  by (cases "UpdateDto opts") (simp_all add: controller_update_def Let_def)

text \<open>
  C8. The envelope of every update request that succeeds has status 200 and carries as
  data the row that the service fetched again after the update, as the lookup returned it
  (\<^verbatim>\<open>null\<close> when it returned none): neither the configured response shape nor the
  serialization groups are applied, whatever the options configure. The detail request for
  the same row, in the witness, is projected onto the response shape.
\<close>

theorem update_response_not_projected:
  assumes "fst (controller_update entityName opts now ident updateDto url db) = Inr env"
  shows "res_statusCode env = 200 \<and>
         res_data env =
           (case fst (repository_findOne
                        \<lparr>fo_where = Some [(''id'', JNum ident)], fo_order = None,
                         fo_relations = None, fo_skip = None, fo_take = None\<rparr>
                        (repository_update [(''id'', JNum ident)]
                           (case UpdateDto opts of None \<Rightarrow> updateDto
                            | Some c \<Rightarrow> dto_instance c updateDto) db)) of
              None \<Rightarrow> JNull
            | Some e \<Rightarrow> JObj e)"
proof (cases "(case UpdateDto opts of None \<Rightarrow> []
            | Some c \<Rightarrow> dto_violations c (dto_instance c updateDto)) = []")
  case True
  from controller_update_ok[OF True, of entityName now ident url db] assms
  show ?thesis by (auto simp: Let_def ApiResponseDto_def)
next
  case False
  from controller_update_violations[OF False, of entityName now ident url db] assms
  show ?thesis by simp
qed

theorem update_response_not_projected_witness:
  "fst (controller_update ''Test'' test_options ''t0'' 1 (JObj [(''name'', JStr ''Updated'')])
          ''/tests/1'' test_table) =
     Inr (ApiResponseDto ''t0''
            (JObj [(''id'', JNum 1), (''name'', JStr ''Updated''),
                   (''description'', JStr ''Desc 1''), (''deletedAt'', JNull)])
            ''Test updated successfully'' 200 (Some ''/tests/1'')) \<and>
   res_data (ApiResponseDto ''t0''
            (JObj [(''id'', JNum 1), (''name'', JStr ''Updated''),
                   (''description'', JStr ''Desc 1''), (''deletedAt'', JNull)])
            ''Test updated successfully'' 200 (Some ''/tests/1'')) =
     (case fst (repository_findOne
                  \<lparr>fo_where = Some [(''id'', JNum 1)], fo_order = None,
                   fo_relations = None, fo_skip = None, fo_take = None\<rparr>
                  (repository_update [(''id'', JNum 1)]
                     (case UpdateDto test_options of None \<Rightarrow> JObj [(''name'', JStr ''Updated'')]
                      | Some c \<Rightarrow> dto_instance c (JObj [(''name'', JStr ''Updated'')]))
                     test_table)) of
        None \<Rightarrow> JNull
      | Some e \<Rightarrow> JObj e) \<and>
   fst (controller_findOne ''Test'' test_options ''t0'' 1 None ''/tests/1'' test_table) =
     Inr (ApiResponseDto ''t0''
            (JObj [(''id'', JNum 1), (''name'', JStr ''Item 1''), (''description'', JStr ''Desc 1'')])
            ''Test retrieved successfully'' 200 (Some ''/tests/1''))"
proof -
  have u: "fst (controller_update ''Test'' test_options ''t0'' 1 (JObj [(''name'', JStr ''Updated'')])
          ''/tests/1'' test_table) =
     Inr (ApiResponseDto ''t0''
            (JObj [(''id'', JNum 1), (''name'', JStr ''Updated''),
                   (''description'', JStr ''Desc 1''), (''deletedAt'', JNull)])
            ''Test updated successfully'' 200 (Some ''/tests/1''))"
    by (simp add: controller_update_def Let_def service_update_def successResponse_no_shape
        test_options_def UpdateTestDto_def properties_def repository_update_def
        repository_findOne_def called_def test_table_def item1_def item2_def alive_def
        matches_def)
  have f: "fst (controller_findOne ''Test'' test_options ''t0'' 1 None ''/tests/1'' test_table) =
     Inr (ApiResponseDto ''t0''
            (JObj [(''id'', JNum 1), (''name'', JStr ''Item 1''), (''description'', JStr ''Desc 1'')])
            ''Test retrieved successfully'' 200 (Some ''/tests/1''))"
    by (simp add: controller_findOne_cases invalidRelations_def test_options_def test_table_def
        repository_findOne_def applyIncludes_def item1_def item2_def alive_def matches_def
        successResponse_def TestResponseDto_def exposedKeys_def checkGroups_def
        List.map_filter_def)
  from update_response_not_projected[OF u] u f show ?thesis by simp
qed

text \<open>
  C10. When the body passes validation and the lookup after the partial update returns no
  entity (for instance because no row has the identifier), the update request does not
  end with a \<^verbatim>\<open>NotFoundException\<close>: it returns an envelope with status 200 whose data is
  \<^verbatim>\<open>null\<close>.
\<close>

theorem update_absent_row_returns_null:
  assumes "(case UpdateDto opts of None \<Rightarrow> []
            | Some c \<Rightarrow> dto_violations c (dto_instance c updateDto)) = []"
    and "fst (repository_findOne
                \<lparr>fo_where = Some [(''id'', JNum ident)], fo_order = None,
                 fo_relations = None, fo_skip = None, fo_take = None\<rparr>
                (repository_update [(''id'', JNum ident)]
                   (case UpdateDto opts of None \<Rightarrow> updateDto
                    | Some c \<Rightarrow> dto_instance c updateDto) db)) = None"
  shows "fst (controller_update entityName opts now ident updateDto url db) =
           Inr \<lparr>res_success = True, res_statusCode = 200,
                res_message = entityName @ '' updated successfully'',
                res_timestamp = now, res_path = Some url, res_data = JNull\<rparr>"
  using controller_update_ok[OF assms(1), of entityName now ident url db] assms(2)
  by (simp add: Let_def ApiResponseDto_def)

theorem update_absent_row_returns_null_witness:
  "(case UpdateDto test_options of None \<Rightarrow> []
    | Some c \<Rightarrow> dto_violations c (dto_instance c (JObj [(''name'', JStr ''Updated'')]))) = [] \<and>
   fst (repository_findOne
          \<lparr>fo_where = Some [(''id'', JNum 999)], fo_order = None,
           fo_relations = None, fo_skip = None, fo_take = None\<rparr>
          (repository_update [(''id'', JNum 999)]
             (case UpdateDto test_options of None \<Rightarrow> JObj [(''name'', JStr ''Updated'')]
              | Some c \<Rightarrow> dto_instance c (JObj [(''name'', JStr ''Updated'')])) test_table)) = None \<and>
   fst (controller_update ''Test'' test_options ''t0'' 999 (JObj [(''name'', JStr ''Updated'')])
          ''/tests/999'' test_table) =
     Inr \<lparr>res_success = True, res_statusCode = 200,
          res_message = ''Test updated successfully'',
          res_timestamp = ''t0'', res_path = Some ''/tests/999'', res_data = JNull\<rparr>"
proof -
  have v: "(case UpdateDto test_options of None \<Rightarrow> []
    | Some c \<Rightarrow> dto_violations c (dto_instance c (JObj [(''name'', JStr ''Updated'')]))) = []"
    by (simp add: test_options_def UpdateTestDto_def properties_def)
  have l: "fst (repository_findOne
          \<lparr>fo_where = Some [(''id'', JNum 999)], fo_order = None,
           fo_relations = None, fo_skip = None, fo_take = None\<rparr>
          (repository_update [(''id'', JNum 999)]
             (case UpdateDto test_options of None \<Rightarrow> JObj [(''name'', JStr ''Updated'')]
              | Some c \<Rightarrow> dto_instance c (JObj [(''name'', JStr ''Updated'')])) test_table)) = None"
    by (simp add: test_options_def UpdateTestDto_def properties_def repository_update_def
        repository_findOne_def called_def test_table_def item1_def item2_def alive_def
        matches_def)
  from update_absent_row_returns_null[OF v l, of "''Test''" "''t0''" "''/tests/999''"] v l
  show ?thesis by simp
qed

section \<open>Response shaping\<close>

lemma onlyKeys_plainToInstance:
  "onlyKeys (exposedKeys shape groups) (plainToInstance shape groups v)"
proof (induction shape groups v rule: plainToInstance.induct)
  case (1 shape groups xs)
  then show ?case by (simp add: list_all_iff)
next
  case (2 shape groups kvs)
  show ?case by (auto simp: list_all_iff List.map_filter_def)
qed simp_all

lemma exposedKeys_declared:
  "k \<in> set (exposedKeys shape groups) \<longleftrightarrow> (\<exists>fg. (k, fg) \<in> set shape \<and> checkGroups groups fg)"
  by (force simp: exposedKeys_def)

text \<open>
  What the branches of \<open>successResponse\<close> compute when a response shape is configured.
  For an array with the \<^verbatim>\<open>isArray\<close> flag, and for a payload without the flag that does
  not pass the test of the paginated branch, the data of the envelope is the projection of
  the payload: every entity in it carries only fields that the response shape declares and
  exposes for the active groups. For a payload without the flag that passes the test, the
  elements of its \<^verbatim>\<open>data\<close> array are projected in the same way; the other properties of
  the payload are copied by the spread without projection.
\<close>

lemma successResponse_declared_fields_only:
  assumes "isArray \<longrightarrow> (\<exists>items. d = JArr items)"
  shows "\<exists>env. successResponse now d msg code p (Some shape) isArray groups = Inr env \<and>
           (isArray \<or> \<not> isPaginated d \<longrightarrow>
              res_data env = plainToInstance shape groups d \<and>
              onlyKeys (exposedKeys shape groups) (res_data env)) \<and>
           (\<not> isArray \<and> isPaginated d \<longrightarrow>
              (\<exists>kvs items.
                 d = JObj kvs \<and> map_of kvs ''data'' = Some (JArr items) \<and>
                 res_data env =
                   JObj (AList.update ''data'' (JArr (map (plainToInstance shape groups) items)) kvs) \<and>
                 list_all (onlyKeys (exposedKeys shape groups))
                   (map (plainToInstance shape groups) items))) \<and>
           (\<forall>k\<in>set (exposedKeys shape groups). \<exists>fg. (k, fg) \<in> set shape \<and> checkGroups groups fg)"
proof (cases isArray)
  case True
  with assms obtain items where d: "d = JArr items" by blast
  have "onlyKeys (exposedKeys shape groups) (plainToInstance shape groups (JArr items))"
    by (rule onlyKeys_plainToInstance)
  then show ?thesis using True d
    by (simp add: successResponse_def ApiResponseDto_def exposedKeys_declared)
next
  case False
  show ?thesis
  proof (cases "isPaginated d")
    case True
    from True obtain kvs where d: "d = JObj kvs"
      by (cases d) (simp_all add: isPaginated_def)
    from True d obtain v where v: "map_of kvs ''data'' = Some v"
      by (cases "map_of kvs ''data''") (simp_all add: isPaginated_def)
    from True d v obtain items where m: "map_of kvs ''data'' = Some (JArr items)"
      by (cases v) (simp_all add: isPaginated_def)
    have "onlyKeys (exposedKeys shape groups) (plainToInstance shape groups (JArr items))"
      by (rule onlyKeys_plainToInstance)
    then show ?thesis using False True d m
      by (simp add: successResponse_def ApiResponseDto_def exposedKeys_declared)
  next
    case np: False
    have o: "onlyKeys (exposedKeys shape groups) (plainToInstance shape groups d)"
      by (rule onlyKeys_plainToInstance)
    have "successResponse now d msg code p (Some shape) False groups =
            Inr (ApiResponseDto now (plainToInstance shape groups d) msg code p)"
      using np by (auto simp: successResponse_def isPaginated_def split: jvalue.splits option.splits)
    then show ?thesis using False np o
      by (simp add: ApiResponseDto_def exposedKeys_declared)
  qed
qed

lemma successResponse_declared_fields_only_example:
  "(\<exists>items. JArr [JObj (item1 @ [(''password'', JStr ''secret'')])] = JArr items) \<and>
   successResponse ''t0'' (JArr [JObj (item1 @ [(''password'', JStr ''secret'')])])
     ''Test retrieved successfully'' 200 (Some ''/tests'') (Some TestResponseDto) True
     (Some [''detail'']) =
   Inr (ApiResponseDto ''t0''
          (JArr [JObj [(''id'', JNum 1), (''name'', JStr ''Item 1''),
                       (''description'', JStr ''Desc 1'')]])
          ''Test retrieved successfully'' 200 (Some ''/tests'')) \<and>
   successResponse ''t0''
     (JObj [(''data'', JArr [JObj (item1 @ [(''password'', JStr ''secret'')])]),
            (''meta'', JObj [(''total'', JNum 1)])])
     ''Test retrieved successfully'' 200 (Some ''/tests'') (Some TestResponseDto) False None =
   Inr (ApiResponseDto ''t0''
          (JObj [(''data'', JArr [JObj [(''id'', JNum 1), (''name'', JStr ''Item 1'')]]),
                 (''meta'', JObj [(''total'', JNum 1)])])
          ''Test retrieved successfully'' 200 (Some ''/tests'')) \<and>
   successResponse ''t0'' (JObj (item1 @ [(''password'', JStr ''secret'')]))
     ''Test retrieved successfully'' 200 (Some ''/tests/1'') (Some TestResponseDto) False
     (Some [''detail'']) =
   Inr (ApiResponseDto ''t0''
          (JObj [(''id'', JNum 1), (''name'', JStr ''Item 1''), (''description'', JStr ''Desc 1'')])
          ''Test retrieved successfully'' 200 (Some ''/tests/1''))"
  using successResponse_declared_fields_only[where isArray = True
          and d = "JArr [JObj (item1 @ [(''password'', JStr ''secret'')])]"
          and now = "''t0''" and msg = "''Test retrieved successfully''" and code = 200
          and p = "Some ''/tests''" and shape = TestResponseDto and groups = "Some [''detail'']"]
        successResponse_declared_fields_only[where isArray = False
          and d = "JObj [(''data'', JArr [JObj (item1 @ [(''password'', JStr ''secret'')])]),
                         (''meta'', JObj [(''total'', JNum 1)])]"
          and now = "''t0''" and msg = "''Test retrieved successfully''" and code = 200
          and p = "Some ''/tests''" and shape = TestResponseDto and groups = None]
        successResponse_declared_fields_only[where isArray = False
          and d = "JObj (item1 @ [(''password'', JStr ''secret'')])"
          and now = "''t0''" and msg = "''Test retrieved successfully''" and code = 200
          and p = "Some ''/tests/1''" and shape = TestResponseDto and groups = "Some [''detail'']"]
  by (simp add: successResponse_def TestResponseDto_def exposedKeys_def checkGroups_def
        item1_def List.map_filter_def)

text \<open>
  C1. The paginated branch is chosen by the test \<^verbatim>\<open>data?.data && Array.isArray(data.data)\<close>
  alone. A single entity that itself has an array-valued \<^verbatim>\<open>data\<close> property passes it, is
  not projected, and its own fields reach the envelope: here \<^verbatim>\<open>password\<close>, which the
  response shape does not declare, appears in the data of the response.
\<close>

theorem successResponse_entity_with_data_array_leaks:
  "successResponse ''t0''
     (JObj [(''id'', JNum 1), (''password'', JStr ''secret''), (''data'', JArr [])])
     ''Test retrieved successfully'' 200 (Some ''/tests/1'') (Some TestResponseDto) False
     (Some [''detail'']) =
   Inr (ApiResponseDto ''t0''
          (JObj [(''id'', JNum 1), (''password'', JStr ''secret''), (''data'', JArr [])])
          ''Test retrieved successfully'' 200 (Some ''/tests/1'')) \<and>
   ''password'' \<notin> fst ` set TestResponseDto \<and>
   \<not> onlyKeys (exposedKeys TestResponseDto (Some [''detail'']))
        (JObj [(''id'', JNum 1), (''password'', JStr ''secret''), (''data'', JArr [])])"
  by (simp add: successResponse_def TestResponseDto_def exposedKeys_def checkGroups_def)

end
